theory Spec2Isabelle
  imports Complex_Main
begin

section \<open>The notebook's own code: the Lorenz system and its integration\<close>

text \<open>
  The notebook \<^verbatim>\<open>pysindy-example.ipynb\<close> defines two functions of its own,
  \<^verbatim>\<open>lorenz\<close> and \<^verbatim>\<open>integrate_lorenz\<close>. Python numbers are modelled as
  \<^typ>\<open>real\<close>: the theorems below are about which expression is evaluated on which
  data, not about rounding.
\<close>

datatype py_error = IndexError | ZeroDivisionError | ValueError

type_synonym state = "real list"

text \<open>
  \<^verbatim>\<open>
  def lorenz(x, t, sigma=10, rho=28, beta=8/3):
      return [
          sigma * (x[1] - x[0]),
          x[0] * (rho - x[2]) - x[1],
          x[0] * x[1] - beta * x[2]
      ]
  \<close>
  The function reads \<^verbatim>\<open>x[0]\<close>, \<^verbatim>\<open>x[1]\<close> and \<^verbatim>\<open>x[2]\<close>; on a state with fewer
  than three entries one of the reads raises \<^verbatim>\<open>IndexError\<close>. The time argument is
  not used.
\<close>

definition lorenz :: "state \<Rightarrow> real \<Rightarrow> real \<Rightarrow> real \<Rightarrow> real \<Rightarrow> py_error + state" where
  "lorenz x t sigma rho beta =
     (if length x < 3 then Inl IndexError
      else Inr [sigma * (x ! 1 - x ! 0),
                x ! 0 * (rho - x ! 2) - x ! 1,
                x ! 0 * x ! 1 - beta * x ! 2])"

text \<open>The call \<^verbatim>\<open>lorenz(x, t)\<close>, with the default parameters of the signature.\<close>

definition lorenz_defaults :: "state \<Rightarrow> real \<Rightarrow> py_error + state" where
  "lorenz_defaults x t = lorenz x t 10 28 (8 / 3)"

text \<open>
  \<^verbatim>\<open>
  def integrate_lorenz(lorenz_function=None, dt=0.002, tmax=10, x0=[-8, 8, 27]):
      if lorenz_function is None:
          lorenz_function = lambda x, t: lorenz(x, t)

      t = np.arange(0, tmax, dt)
      X = odeint(lorenz_function, x0, t)
      return X
  \<close>
  \<^verbatim>\<open>np.arange\<close> and \<^verbatim>\<open>scipy.integrate.odeint\<close> are library functions: they are
  parameters of the model. A right-hand side maps a state and a time to a state
  or raises.
\<close>

type_synonym rhs = "state \<Rightarrow> real \<Rightarrow> py_error + state"
type_synonym arange_fn = "real \<Rightarrow> real \<Rightarrow> real \<Rightarrow> py_error + real list"
type_synonym odeint_fn = "rhs \<Rightarrow> state \<Rightarrow> real list \<Rightarrow> py_error + state list"

definition integrate_lorenz ::
  "odeint_fn \<Rightarrow> arange_fn \<Rightarrow> rhs option \<Rightarrow> real \<Rightarrow> real \<Rightarrow> state \<Rightarrow> py_error + state list" where
  "integrate_lorenz odeint arange lorenz_function dt tmax x0 =
     (let f = (case lorenz_function of
                 None \<Rightarrow> (\<lambda>x t. lorenz_defaults x t)
               | Some g \<Rightarrow> g)
      in case arange 0 tmax dt of
           Inl e \<Rightarrow> Inl e
         | Inr t \<Rightarrow> odeint f x0 t)"

text \<open>The default arguments of the signature.\<close>

definition default_dt :: real where "default_dt = 2 / 1000"
definition default_tmax :: real where "default_tmax = 10"
definition default_x0 :: state where "default_x0 = [-8, 8, 27]"

subsection \<open>What the library functions are assumed to do\<close>

text \<open>
  A right-hand side is well shaped for dimension \<open>m\<close> when it returns a state of
  \<open>m\<close> entries on every state of \<open>m\<close> entries.
\<close>

definition well_shaped :: "nat \<Rightarrow> rhs \<Rightarrow> bool" where
  "well_shaped m f = (\<forall>y t. length y = m \<longrightarrow> (\<exists>r. f y t = Inr r \<and> length r = m))"

text \<open>
  The documented result of \<^verbatim>\<open>odeint(func, y0, t)\<close>: an array of shape
  \<^verbatim>\<open>(len(t), len(y0))\<close> with the initial value \<^verbatim>\<open>y0\<close> in the first row. It is
  required here for a non-empty time grid and a well shaped right-hand side.
\<close>

definition odeint_contract :: "odeint_fn \<Rightarrow> bool" where
  "odeint_contract odeint =
     (\<forall>f y0 ts. ts \<noteq> [] \<and> well_shaped (length y0) f \<longrightarrow>
        (\<exists>X. odeint f y0 ts = Inr X \<and> length X = length ts \<and> X ! 0 = y0
             \<and> (\<forall>row \<in> set X. length row = length y0)))"

text \<open>
  \<^verbatim>\<open>np.arange(start, stop, step)\<close> in exact arithmetic: the points
  \<open>start + i * step\<close> for \<open>0 \<le> i < \<lceil>(stop - start) / step\<rceil>\<close>; a zero step raises.
\<close>

definition np_arange :: arange_fn where
  "np_arange start stop step =
     (if step = 0 then Inl ZeroDivisionError
      else Inr (map (\<lambda>i. start + real i * step) [0 ..< nat \<lceil>(stop - start) / step\<rceil>]))"

text \<open>
  One integrator that meets the contract: the explicit Euler method over the grid.
  It stands in for \<^verbatim>\<open>odeint\<close> where a concrete run is evaluated.
\<close>

fun euler_steps :: "rhs \<Rightarrow> state \<Rightarrow> real \<Rightarrow> real list \<Rightarrow> py_error + state list" where
  "euler_steps f y t [] = Inr []"
| "euler_steps f y t (t' # ts) =
     (case f y t of
        Inl e \<Rightarrow> Inl e
      | Inr dy \<Rightarrow>
          (let y' = map2 (\<lambda>a b. a + (t' - t) * b) y dy
           in case euler_steps f y' t' ts of
                Inl e \<Rightarrow> Inl e
              | Inr rows \<Rightarrow> Inr (y' # rows)))"

definition euler_odeint :: odeint_fn where
  "euler_odeint f y0 ts =
     (case ts of
        [] \<Rightarrow> Inl ValueError
      | t0 # rest \<Rightarrow>
          (case euler_steps f y0 t0 rest of
             Inl e \<Rightarrow> Inl e
           | Inr rows \<Rightarrow> Inr (y0 # rows)))"

section \<open>The sparse optimizer the notebook calls\<close>

text \<open>
  \<^verbatim>\<open>model.fit(X, t=dt)\<close> hands the feature matrix and the derivative matrix to the
  optimizer of the \<^verbatim>\<open>pysindy\<close> package (\<^verbatim>\<open>STLSQ\<close>), whose code is not part of
  the notebook. The definitions of this section follow section 4.3 of the
  specification, sentence by sentence. Matrices are stored by columns: \<open>Theta\<close> is
  the list of its feature columns, \<open>Xdot\<close> the list of its target columns, and the
  coefficient matrix the list of its columns, one coefficient vector per target.
\<close>

datatype engine_error =
  InsufficientSamples | NonMonotonicTime | ShapeMismatch | DimensionMismatch
  | EmptyLibrary | SingularSystem | ModelNotFit

type_synonym vec = "real list"
type_synonym columns = "vec list"

text \<open>
  Modelled from the spec: the linear-algebra backend "providing least-squares/ridge
  solves (consumed by the optimizer)" is an external collaborator. It is a parameter:
  given the active feature columns, a target column and \<open>ridge_alpha\<close> it returns
  one coefficient per column, or \<open>None\<close> when the solve is rank-deficient "in a way
  that produces non-finite coefficients".
\<close>

type_synonym lstsq_fn = "columns \<Rightarrow> vec \<Rightarrow> real \<Rightarrow> vec option"

text \<open>
  Modelled from the spec: the problem is "restricted to the currently active
  (non-zeroed) feature columns". \<open>select\<close> keeps the columns whose flag is set.
\<close>

definition select :: "bool list \<Rightarrow> 'a list \<Rightarrow> 'a list" where
  "select act cols = map snd (filter fst (zip act cols))"

text \<open>
  Modelled from the spec: the coefficients of the restricted solve are written back
  to the positions of the active features; an inactive feature has coefficient zero.
\<close>

fun scatter :: "bool list \<Rightarrow> vec \<Rightarrow> vec" where
  "scatter [] xi = []"
| "scatter (False # act) xi = 0 # scatter act xi"
| "scatter (True # act) [] = 0 # scatter act []"
| "scatter (True # act) (c # xi) = c # scatter act xi"

text \<open>
  Modelled from the spec: the comparison at the threshold is
  "\<^verbatim>\<open>abs(coef) < threshold\<close> strictly".
\<close>

definition below :: "real \<Rightarrow> real \<Rightarrow> bool" where
  "below threshold c = (\<bar>c\<bar> < threshold)"

text \<open>
  Modelled from the spec: one iteration of the algorithm. "1. Solve the
  ridge-regularized least-squares problem restricted to the currently active
  feature columns. 2. Zero out any resulting coefficient whose absolute value is
  below \<^verbatim>\<open>threshold\<close>. 3. Remove the corresponding features from the active set for
  the next iteration." A target with no active feature has all coefficients zero
  and is not an error; a failed solve is \<open>None\<close>.
\<close>

definition stlsq_step ::
  "lstsq_fn \<Rightarrow> columns \<Rightarrow> vec \<Rightarrow> real \<Rightarrow> real \<Rightarrow> bool list \<Rightarrow> (vec \<times> bool list) option" where
  "stlsq_step lstsq Theta y threshold ridge_alpha act =
     (if True \<notin> set act then Some (replicate (length act) 0, act)
      else case lstsq (select act Theta) y ridge_alpha of
             None \<Rightarrow> None
           | Some xi \<Rightarrow>
               (let coef = scatter act xi
                in Some (map (\<lambda>c. if below threshold c then 0 else c) coef,
                         map2 (\<lambda>a c. a \<and> \<not> below threshold c) act coef)))"

text \<open>
  Modelled from the spec: "iterate until convergence or max_iter reached", with
  "4. Convergence: the active-set pattern is unchanged from the previous iteration
  (fixed point), or \<^verbatim>\<open>max_iter\<close> is reached." The test is the last step of an
  iteration; \<open>k\<close> counts the iterations already done. A failed solve ends the call
  with \<open>SingularSystem\<close>.
\<close>

function stlsq_iterate ::
  "lstsq_fn \<Rightarrow> columns \<Rightarrow> vec \<Rightarrow> real \<Rightarrow> nat \<Rightarrow> real \<Rightarrow> nat \<Rightarrow> bool list \<Rightarrow> engine_error + vec" where
  "stlsq_iterate lstsq Theta y threshold max_iter ridge_alpha k act =
     (case stlsq_step lstsq Theta y threshold ridge_alpha act of
        None \<Rightarrow> Inl SingularSystem
      | Some (coef, act') \<Rightarrow>
          if act' = act \<or> max_iter \<le> Suc k then Inr coef
          else stlsq_iterate lstsq Theta y threshold max_iter ridge_alpha (Suc k) act')"
  by pat_completeness auto
termination
  by (relation "measure (\<lambda>(lstsq, Theta, y, threshold, max_iter, ridge_alpha, k, act). max_iter - k)") auto

text \<open>The first failure among the columns is the failure of the call.\<close>

fun collect :: "(engine_error + 'a) list \<Rightarrow> engine_error + 'a list" where
  "collect [] = Inr []"
| "collect (r # rs) =
     (case r of
        Inl e \<Rightarrow> Inl e
      | Inr v \<Rightarrow> (case collect rs of Inl e \<Rightarrow> Inl e | Inr vs \<Rightarrow> Inr (v # vs)))"

text \<open>
  Modelled from the spec: "\<^verbatim>\<open>solve(Theta, Xdot, threshold, max_iter, ridge_alpha) -> Xi\<close>.
  Solves, independently for each target column j of Xdot, a regularized
  least-squares problem [...] subject to driving small-magnitude coefficients to
  exactly zero." Every feature is active at the start.
\<close>

definition solve ::
  "lstsq_fn \<Rightarrow> columns \<Rightarrow> columns \<Rightarrow> real \<Rightarrow> nat \<Rightarrow> real \<Rightarrow> engine_error + columns" where
  "solve lstsq Theta Xdot threshold max_iter ridge_alpha =
     collect (map (\<lambda>y. stlsq_iterate lstsq Theta y threshold max_iter ridge_alpha 0
                          (replicate (length Theta) True)) Xdot)"

text \<open>
  Modelled from the spec: "a direct least-squares solve of \<open>Theta xi = Xdot\<close>": the
  backend on all feature columns, with no ridge term and no thresholding, for
  every target column.
\<close>

definition direct_lstsq :: "lstsq_fn \<Rightarrow> columns \<Rightarrow> columns \<Rightarrow> engine_error + columns" where
  "direct_lstsq lstsq Theta Xdot =
     collect (map (\<lambda>y. case lstsq Theta y 0 of
                          None \<Rightarrow> Inl SingularSystem
                        | Some xi \<Rightarrow> Inr xi) Xdot)"

text \<open>Modelled from the spec: "the number of nonzero coefficients in the result".\<close>

definition nnz :: "columns \<Rightarrow> nat" where
  "nnz Xi = sum_list (map (\<lambda>col. length (filter (\<lambda>c. c \<noteq> 0) col)) Xi)"

text \<open>A backend returns one coefficient per column it was given.\<close>

definition backend_shape :: "lstsq_fn \<Rightarrow> bool" where
  "backend_shape lstsq =
     (\<forall>A y ridge_alpha xi. lstsq A y ridge_alpha = Some xi \<longrightarrow> length xi = length A)"

subsection \<open>A reference backend\<close>

text \<open>
  Modelled from the spec: an instance of the absent backend, for concrete runs. The
  minimiser of \<open>||A xi - y||\<^sup>2 + ridge_alpha * ||xi||\<^sup>2\<close> solves the normal equations
  \<open>(A\<^sup>T A + ridge_alpha * I) xi = A\<^sup>T y\<close>. \<open>normal_system\<close> builds their augmented
  rows and \<open>gauss_solve\<close> eliminates without row exchanges; a zero pivot (a
  division by zero in floating point) is the non-finite case, \<open>None\<close>.
\<close>

definition dot :: "vec \<Rightarrow> vec \<Rightarrow> real" where
  "dot u v = sum_list (map2 (*) u v)"

definition normal_system :: "columns \<Rightarrow> vec \<Rightarrow> real \<Rightarrow> real list list" where
  "normal_system A y ridge_alpha =
     map (\<lambda>(i, a). (map (dot a) A)[i := dot a a + ridge_alpha] @ [dot a y]) (enumerate 0 A)"

function gauss_solve :: "real list list \<Rightarrow> vec option" where
  "gauss_solve [] = Some []"
| "gauss_solve ([] # rows) = None"
| "gauss_solve ((p # r) # rows) =
     (if p = 0 then None
      else (let r' = map (\<lambda>x. x / p) r
            in case gauss_solve
                      (map (\<lambda>row. case row of
                                     [] \<Rightarrow> []
                                   | q # s \<Rightarrow> map2 (\<lambda>a b. a - q * b) s r') rows) of
                 None \<Rightarrow> None
               | Some xs \<Rightarrow> Some ((last r' - dot (butlast r') xs) # xs)))"
  by pat_completeness auto
termination
  by (relation "measure length") auto

definition ridge_normal_eq :: lstsq_fn where
  "ridge_normal_eq A y ridge_alpha = gauss_solve (normal_system A y ridge_alpha)"

text \<open>
  The test that \<open>xi\<close> solves the normal equations of \<open>(A, y, ridge_alpha)\<close>: every
  feature column \<open>a\<close> with coefficient \<open>c\<close> satisfies
  \<open>a \<bullet> (A xi - y) + ridge_alpha * c = 0\<close>. \<open>combine A xi n\<close> is the product \<open>A xi\<close>, a
  vector of \<open>n\<close> samples.
\<close>

definition combine :: "columns \<Rightarrow> vec \<Rightarrow> nat \<Rightarrow> vec" where
  "combine A xi n =
     foldr (\<lambda>(a, c) acc. map2 (+) (map ((*) c) a) acc) (zip A xi) (replicate n 0)"

definition is_ridge_solution :: "columns \<Rightarrow> vec \<Rightarrow> real \<Rightarrow> vec \<Rightarrow> bool" where
  "is_ridge_solution A y ridge_alpha xi =
     (length xi = length A \<and>
      list_all2 (\<lambda>a c. dot a (map2 (-) (combine A xi (length y)) y) + ridge_alpha * c = 0) A xi)"

text \<open>
  Three samples of three features, the second and third nearly collinear, and one
  target: \<open>y = 1/2 * a1 + 6/5 * a2 + 3 * a3\<close>.
\<close>

definition demo_Theta :: columns where
  "demo_Theta = [[-25, -2, 1], [10, 1, 0], [1, 0, 0]]"

definition demo_Xdot :: columns where
  "demo_Xdot = [[5 / 2, 1 / 5, 1 / 2]]"

declare stlsq_iterate.simps [simp del]

section \<open>Properties of the notebook's code\<close>

lemma lorenz_defaults_well_shaped: "well_shaped 3 (\<lambda>x t. lorenz_defaults x t)"
  by (simp add: well_shaped_def lorenz_defaults_def lorenz_def)

lemma euler_steps_shape:
  assumes "well_shaped m f" and "length y = m"
  shows "\<exists>rows. euler_steps f y t ts = Inr rows \<and> length rows = length ts
            \<and> (\<forall>row \<in> set rows. length row = m)"
  using assms(2)
proof (induction ts arbitrary: y t)
  case Nil
  then show ?case by simp
next
  case (Cons t' ts)
  from assms(1) Cons.prems obtain dy where dy: "f y t = Inr dy" "length dy = m"
    unfolding well_shaped_def by blast
  define y' where "y' = map2 (\<lambda>a b. a + (t' - t) * b) y dy"
  have len: "length y' = m"
    using Cons.prems dy(2) by (simp add: y'_def)
  from Cons.IH [OF len] obtain rows where
    rows: "euler_steps f y' t' ts = Inr rows" "length rows = length ts"
          "\<forall>row \<in> set rows. length row = m"
    by blast
  have "euler_steps f y t (t' # ts) = Inr (y' # rows)"
    using dy(1) rows(1) by (simp add: y'_def)
  then show ?case
    using rows(2,3) len by simp
qed

lemma euler_odeint_contract: "odeint_contract euler_odeint"
  unfolding odeint_contract_def
proof (intro allI impI)
  fix f :: rhs and y0 :: state and ts :: "real list"
  assume a: "ts \<noteq> [] \<and> well_shaped (length y0) f"
  then obtain t0 rest where ts: "ts = t0 # rest"
    by (cases ts) auto
  from a euler_steps_shape [of "length y0" f y0 t0 rest] obtain rows where
    rows: "euler_steps f y0 t0 rest = Inr rows" "length rows = length rest"
          "\<forall>row \<in> set rows. length row = length y0"
    by blast
  have "euler_odeint f y0 ts = Inr (y0 # rows)"
    using rows(1) by (simp add: euler_odeint_def ts)
  then show "\<exists>X. euler_odeint f y0 ts = Inr X \<and> length X = length ts \<and> X ! 0 = y0
                \<and> (\<forall>row \<in> set X. length row = length y0)"
    using rows(2,3) by (simp add: ts)
qed

text \<open>
  Claim C9. For every 3-element state \<open>[x0, x1, x2]\<close> and any \<open>t\<close>, \<^verbatim>\<open>lorenz\<close>
  returns exactly the list
  \<open>[sigma * (x1 - x0), x0 * (rho - x2) - x1, x0 * x1 - beta * x2]\<close>, and with the
  default parameters \<open>sigma = 10\<close>, \<open>rho = 28\<close>, \<open>beta = 8/3\<close> this is the Lorenz
  right-hand side \<open>[10 * (x1 - x0), x0 * (28 - x2) - x1, x0 * x1 - 8/3 * x2]\<close>.
\<close>

theorem lorenz_rhs:
  "lorenz [x0, x1, x2] t sigma rho beta
     = Inr [sigma * (x1 - x0), x0 * (rho - x2) - x1, x0 * x1 - beta * x2]
   \<and> lorenz_defaults [x0, x1, x2] t
     = Inr [10 * (x1 - x0), x0 * (28 - x2) - x1, x0 * x1 - 8 / 3 * x2]"
  by (simp add: lorenz_defaults_def lorenz_def)

text \<open>
  Claim C10. \<^verbatim>\<open>integrate_lorenz(lorenz_function, dt, tmax, x0)\<close> returns what
  \<^verbatim>\<open>odeint\<close> returns for the chosen right-hand side, the initial state \<open>x0\<close> and
  the time points \<^verbatim>\<open>np.arange(0, tmax, dt)\<close>; the right-hand side is the default
  Lorenz system (\<open>sigma = 10\<close>, \<open>rho = 28\<close>, \<open>beta = 8/3\<close>) when
  \<^verbatim>\<open>lorenz_function\<close> is \<^verbatim>\<open>None\<close>. For an integrator that meets the documented
  contract of \<^verbatim>\<open>odeint\<close>, a 3-element initial state and a non-empty time grid, the
  returned trajectory has one row per time point, 3 columns, and \<open>x0\<close> as its
  first row.
\<close>

theorem integrate_lorenz_trajectory:
  assumes contract: "odeint_contract odeint"
    and grid: "arange 0 tmax dt = Inr ts" "ts \<noteq> []"
    and x0: "length x0 = 3"
    and f: "lorenz_function = None \<or> (\<exists>g. lorenz_function = Some g \<and> well_shaped 3 g)"
  shows "\<exists>X. integrate_lorenz odeint arange lorenz_function dt tmax x0 = Inr X
           \<and> odeint (case lorenz_function of
                        None \<Rightarrow> (\<lambda>x t. lorenz x t 10 28 (8 / 3))
                      | Some g \<Rightarrow> g) x0 ts = Inr X
           \<and> length X = length ts
           \<and> (\<forall>row \<in> set X. length row = 3)
           \<and> X ! 0 = x0"
proof -
  define rhs where
    "rhs = (case lorenz_function of None \<Rightarrow> (\<lambda>x t. lorenz x t 10 28 (8 / 3)) | Some g \<Rightarrow> g)"
  have same: "(\<lambda>x t. lorenz_defaults x t) = (\<lambda>x t. lorenz x t 10 28 (8 / 3))"
    by (simp add: lorenz_defaults_def fun_eq_iff)
  have call: "integrate_lorenz odeint arange lorenz_function dt tmax x0 = odeint rhs x0 ts"
    using grid(1) same by (simp add: integrate_lorenz_def rhs_def split: option.splits)
  have shaped: "well_shaped (length x0) rhs"
    using f lorenz_defaults_well_shaped x0 same by (auto simp: rhs_def)
  from contract grid(2) shaped obtain X where
    X: "odeint rhs x0 ts = Inr X" "length X = length ts" "X ! 0 = x0"
       "\<forall>row \<in> set X. length row = length x0"
    unfolding odeint_contract_def by blast
  show ?thesis
    using call X x0 unfolding rhs_def by auto
qed

theorem integrate_lorenz_trajectory_witness:
  "odeint_contract euler_odeint
   \<and> np_arange 0 1 (1 / 2) = Inr [0, 1 / 2]
   \<and> [0, 1 / 2] \<noteq> ([] :: real list)
   \<and> length default_x0 = 3
   \<and> integrate_lorenz euler_odeint np_arange None (1 / 2) 1 default_x0
       = Inr [[-8, 8, 27], [72, 0, -41]]"
proof -
  have grid: "np_arange 0 1 (1 / 2) = Inr [0, 1 / 2]"
    by (simp add: np_arange_def upt_rec)
  have run: "integrate_lorenz euler_odeint np_arange None (1 / 2) 1 default_x0
               = Inr [[-8, 8, 27], [72, 0, -41]]"
    by (simp add: integrate_lorenz_def grid euler_odeint_def lorenz_defaults_def lorenz_def
        default_x0_def)
  from integrate_lorenz_trajectory [of euler_odeint np_arange 1 "1 / 2" "[0, 1 / 2]"
      default_x0 None, OF euler_odeint_contract grid]
  have "\<exists>X. integrate_lorenz euler_odeint np_arange None (1 / 2) 1 default_x0 = Inr X
           \<and> length X = length [0, 1 / 2 :: real] \<and> X ! 0 = default_x0"
    by (auto simp: default_x0_def)
  then show ?thesis
    using euler_odeint_contract grid run by (simp add: default_x0_def)
qed

section \<open>Properties of the optimizer\<close>

lemma select_all: "length cols = n \<Longrightarrow> select (replicate n True) cols = cols"
  unfolding select_def
proof (induction cols arbitrary: n)
  case Nil
  then show ?case by simp
next
  case (Cons c cols)
  then obtain k where "n = Suc k" "length cols = k" by (cases n) auto
  with Cons.IH [of k] show ?case by simp
qed

lemma scatter_all: "length xi = n \<Longrightarrow> scatter (replicate n True) xi = xi"
proof (induction xi arbitrary: n)
  case Nil
  then show ?case by simp
next
  case (Cons c xi)
  then obtain k where "n = Suc k" "length xi = k" by (cases n) auto
  with Cons.IH [of k] show ?case by simp
qed

lemma keep_all: "length coef = n \<Longrightarrow> map2 (\<lambda>a c. a \<and> \<not> below 0 c) (replicate n True) coef = replicate n True"
proof (induction coef arbitrary: n)
  case Nil
  then show ?case by simp
next
  case (Cons c coef)
  then obtain k where "n = Suc k" "length coef = k" by (cases n) auto
  with Cons.IH [of k] show ?case by (simp add: below_def)
qed

lemma zero_threshold: "map (\<lambda>c. if below 0 c then 0 else c) coef = coef"
  by (induction coef) (simp_all add: below_def)

lemma stlsq_step_zero:
  assumes "backend_shape lstsq" and "Theta \<noteq> []"
  shows "stlsq_step lstsq Theta y 0 0 (replicate (length Theta) True)
           = (case lstsq Theta y 0 of None \<Rightarrow> None
              | Some xi \<Rightarrow> Some (xi, replicate (length Theta) True))"
proof (cases "lstsq Theta y 0")
  case None
  with assms(2) show ?thesis
    by (simp add: stlsq_step_def select_all)
next
  case (Some xi)
  with assms(1) have len: "length xi = length Theta"
    unfolding backend_shape_def by blast
  with Some assms(2) show ?thesis
    by (simp add: stlsq_step_def select_all scatter_all keep_all zero_threshold)
qed

lemma stlsq_iterate_zero:
  assumes "backend_shape lstsq" and "Theta \<noteq> []"
  shows "stlsq_iterate lstsq Theta y 0 max_iter 0 0 (replicate (length Theta) True)
           = (case lstsq Theta y 0 of None \<Rightarrow> Inl SingularSystem | Some xi \<Rightarrow> Inr xi)"
  by (subst stlsq_iterate.simps) (simp add: stlsq_step_zero [OF assms] split: option.splits)

text \<open>
  Claim C1. With \<open>threshold = 0\<close> and \<open>ridge_alpha = 0\<close>, \<open>solve\<close> returns exactly
  the coefficient matrix of the direct least-squares solve of \<open>Theta xi = Xdot\<close>,
  for every target column and every \<open>max_iter\<close> (and fails exactly when the direct
  solve fails). The feature matrix has at least one column, as every library has
  (an empty one is refused with \<open>EmptyLibrary\<close>), and the backend returns one
  coefficient per column.
\<close>

theorem solve_reduces_to_least_squares:
  assumes "backend_shape lstsq" and "Theta \<noteq> []"
  shows "solve lstsq Theta Xdot 0 max_iter 0 = direct_lstsq lstsq Theta Xdot"
  by (simp add: solve_def direct_lstsq_def stlsq_iterate_zero [OF assms])

lemma gauss_solve_length: "gauss_solve rows = Some xs \<Longrightarrow> length xs = length rows"
proof (induction rows arbitrary: xs rule: gauss_solve.induct)
  case 1
  then show ?case by simp
next
  case (2 rows)
  then show ?case by simp
next
  case (3 p r rows)
  then show ?case
    by (auto simp: Let_def split: if_splits option.splits)
qed

lemma ridge_normal_eq_shape: "backend_shape ridge_normal_eq"
  by (auto simp: backend_shape_def ridge_normal_eq_def normal_system_def dest: gauss_solve_length)

lemma nnz_threshold_mono:
  "t1 \<le> t2 \<Longrightarrow>
   length (filter (\<lambda>c. c \<noteq> 0) (map (\<lambda>c. if below t2 c then 0 else c) coef))
     \<le> length (filter (\<lambda>c. c \<noteq> 0) (map (\<lambda>c. if below t1 c then 0 else c) coef))"
  by (induction coef) (auto simp: below_def)

lemma stlsq_single_pass:
  assumes "max_iter \<le> 1"
  shows "stlsq_iterate lstsq Theta y threshold max_iter ridge_alpha 0 act
           = (case stlsq_step lstsq Theta y threshold ridge_alpha act of
                None \<Rightarrow> Inl SingularSystem | Some (coef, act') \<Rightarrow> Inr coef)"
  using assms by (subst stlsq_iterate.simps) (simp split: option.splits)

lemma single_pass_column:
  assumes "max_iter \<le> 1" and "t1 \<le> t2"
    and "stlsq_iterate lstsq Theta y t1 max_iter ridge_alpha 0 act = Inr c1"
  shows "\<exists>c2. stlsq_iterate lstsq Theta y t2 max_iter ridge_alpha 0 act = Inr c2
           \<and> length (filter (\<lambda>c. c \<noteq> 0) c2) \<le> length (filter (\<lambda>c. c \<noteq> 0) c1)"
proof (cases "True \<in> set act")
  case False
  with assms(3) show ?thesis
    by (simp add: stlsq_single_pass [OF assms(1)] stlsq_step_def)
next
  case True
  show ?thesis
  proof (cases "lstsq (select act Theta) y ridge_alpha")
    case None
    with True assms(3) show ?thesis
      by (simp add: stlsq_single_pass [OF assms(1)] stlsq_step_def)
  next
    case (Some xi)
    with True assms(3) have c1: "c1 = map (\<lambda>c. if below t1 c then 0 else c) (scatter act xi)"
      by (simp add: stlsq_single_pass [OF assms(1)] stlsq_step_def Let_def)
    from True Some have "stlsq_iterate lstsq Theta y t2 max_iter ridge_alpha 0 act
        = Inr (map (\<lambda>c. if below t2 c then 0 else c) (scatter act xi))"
      by (simp add: stlsq_single_pass [OF assms(1)] stlsq_step_def Let_def)
    with nnz_threshold_mono [OF assms(2), of "scatter act xi"] c1 show ?thesis
      by simp
  qed
qed

text \<open>
  Claim C2, as amended. For a single solve-and-threshold pass (\<open>max_iter \<le> 1\<close>) and
  thresholds \<open>t1 \<le> t2\<close>, with the other arguments fixed: when \<open>solve\<close> succeeds with
  \<open>t1\<close> it succeeds with \<open>t2\<close>, and the result for \<open>t2\<close> has no more nonzero
  coefficients than the result for \<open>t1\<close>.
\<close>

theorem sparsity_monotone_single_pass:
  assumes "max_iter \<le> 1" and "t1 \<le> t2"
    and "solve lstsq Theta Xdot t1 max_iter ridge_alpha = Inr Xi1"
  shows "\<exists>Xi2. solve lstsq Theta Xdot t2 max_iter ridge_alpha = Inr Xi2 \<and> nnz Xi2 \<le> nnz Xi1"
  using assms(3) unfolding solve_def
proof (induction Xdot arbitrary: Xi1)
  case Nil
  then show ?case by (simp add: nnz_def)
next
  case (Cons y Xdot)
  let ?col = "\<lambda>t y. stlsq_iterate lstsq Theta y t max_iter ridge_alpha 0 (replicate (length Theta) True)"
  from Cons.prems obtain c1 rest1 where
    c1: "?col t1 y = Inr c1" and rest1: "collect (map (?col t1) Xdot) = Inr rest1"
    and Xi1: "Xi1 = c1 # rest1"
    by (auto split: sum.splits)
  from single_pass_column [OF assms(1,2) c1] obtain c2 where
    c2: "?col t2 y = Inr c2"
        "length (filter (\<lambda>c. c \<noteq> 0) c2) \<le> length (filter (\<lambda>c. c \<noteq> 0) c1)"
    by blast
  from Cons.IH [OF rest1] obtain rest2 where
    rest2: "collect (map (?col t2) Xdot) = Inr rest2" "nnz rest2 \<le> nnz rest1"
    by blast
  have "collect (map (?col t2) (y # Xdot)) = Inr (c2 # rest2)"
    using c2(1) rest2(1) by simp
  moreover have "nnz (c2 # rest2) \<le> nnz Xi1"
    using c2(2) rest2(2) by (simp add: nnz_def Xi1)
  ultimately show ?case by blast
qed


subsection \<open>Concrete runs\<close>

lemma demo_first_solve:
  "ridge_normal_eq demo_Theta [5 / 2, 1 / 5, 1 / 2] 0 = Some [1 / 2, 6 / 5, 3]"
  by (simp add: ridge_normal_eq_def normal_system_def demo_Theta_def dot_def)

lemma demo_refits:
  "ridge_normal_eq [[10, 1, 0], [1, 0, 0]] [5 / 2, 1 / 5, 1 / 2] 0 = Some [1 / 5, 1 / 2]"
  "ridge_normal_eq [[1, 0, 0]] [5 / 2, 1 / 5, 1 / 2] 0 = Some [5 / 2]"
  by (simp_all add: ridge_normal_eq_def normal_system_def dot_def)

lemma demo_direct: "direct_lstsq ridge_normal_eq demo_Theta demo_Xdot = Inr [[1 / 2, 6 / 5, 3]]"
  by (simp add: direct_lstsq_def demo_Xdot_def demo_first_solve)

lemma demo_solve_evals:
  "solve ridge_normal_eq demo_Theta demo_Xdot 1 1 0 = Inr [[0, 6 / 5, 3]]"
  "solve ridge_normal_eq demo_Theta demo_Xdot 2 1 0 = Inr [[0, 0, 3]]"
  "solve ridge_normal_eq demo_Theta demo_Xdot 1 10 0 = Inr [[0, 0, 0]]"
  "solve ridge_normal_eq demo_Theta demo_Xdot 2 10 0 = Inr [[0, 0, 5 / 2]]"
  by (simp_all add: solve_def demo_Theta_def demo_Xdot_def stlsq_iterate.simps stlsq_step_def
      select_def below_def ridge_normal_eq_def normal_system_def dot_def)

lemma demo_normal_equations:
  "is_ridge_solution demo_Theta [5 / 2, 1 / 5, 1 / 2] 0 [1 / 2, 6 / 5, 3]"
  "is_ridge_solution [[10, 1, 0], [1, 0, 0]] [5 / 2, 1 / 5, 1 / 2] 0 [1 / 5, 1 / 2]"
  "is_ridge_solution [[1, 0, 0]] [5 / 2, 1 / 5, 1 / 2] 0 [5 / 2]"
  by (simp_all add: is_ridge_solution_def combine_def dot_def demo_Theta_def)

theorem solve_reduces_to_least_squares_witness:
  "backend_shape ridge_normal_eq
   \<and> demo_Theta \<noteq> []
   \<and> solve ridge_normal_eq demo_Theta demo_Xdot 0 10 0 = direct_lstsq ridge_normal_eq demo_Theta demo_Xdot
   \<and> direct_lstsq ridge_normal_eq demo_Theta demo_Xdot = Inr [[1 / 2, 6 / 5, 3]]"
proof -
  have ne: "demo_Theta \<noteq> []"
    by (simp add: demo_Theta_def)
  from solve_reduces_to_least_squares [OF ridge_normal_eq_shape ne, of demo_Xdot 10]
  show ?thesis
    using ridge_normal_eq_shape ne demo_direct by simp
qed

theorem sparsity_monotone_single_pass_witness:
  "(1::nat) \<le> 1 \<and> (1::real) \<le> 2
   \<and> solve ridge_normal_eq demo_Theta demo_Xdot 1 1 0 = Inr [[0, 6 / 5, 3]]
   \<and> solve ridge_normal_eq demo_Theta demo_Xdot 2 1 0 = Inr [[0, 0, 3]]
   \<and> nnz [[0, 0, 3]] \<le> nnz [[0, 6 / 5, 3]]"
proof -
  have "\<exists>Xi2. solve ridge_normal_eq demo_Theta demo_Xdot 2 1 0 = Inr Xi2
           \<and> nnz Xi2 \<le> nnz [[0, 6 / 5, 3]]"
    by (rule sparsity_monotone_single_pass [where ?t1.0 = 1 and max_iter = 1])
       (use demo_solve_evals in simp_all)
  then show ?thesis
    using demo_solve_evals by (simp add: nnz_def)
qed

text \<open>
  Claim C2, as stated, fails. On \<open>demo_Theta\<close> and \<open>demo_Xdot\<close>, with
  \<open>max_iter = 10\<close> and \<open>ridge_alpha = 0\<close>, the least-squares coefficients are
  \<open>(1/2, 6/5, 3)\<close>. Threshold \<open>1\<close> removes the first feature; the refit on the other
  two is \<open>(1/5, 1/2)\<close>, both below \<open>1\<close>, and the result is all zero. Threshold \<open>2\<close>
  removes the first two features at once; the refit on the third is \<open>5/2\<close>, which
  stays. The larger threshold gives one nonzero coefficient, the smaller none.
  Each of the three solves satisfies its normal equations.
\<close>

theorem sparsity_not_monotone:
  "(1::real) \<le> 2
   \<and> solve ridge_normal_eq demo_Theta demo_Xdot 1 10 0 = Inr [[0, 0, 0]]
   \<and> solve ridge_normal_eq demo_Theta demo_Xdot 2 10 0 = Inr [[0, 0, 5 / 2]]
   \<and> \<not> nnz [[0, 0, 5 / 2]] \<le> nnz [[0, 0, 0]]
   \<and> ridge_normal_eq demo_Theta [5 / 2, 1 / 5, 1 / 2] 0 = Some [1 / 2, 6 / 5, 3]
   \<and> ridge_normal_eq [[10, 1, 0], [1, 0, 0]] [5 / 2, 1 / 5, 1 / 2] 0 = Some [1 / 5, 1 / 2]
   \<and> ridge_normal_eq [[1, 0, 0]] [5 / 2, 1 / 5, 1 / 2] 0 = Some [5 / 2]
   \<and> is_ridge_solution demo_Theta [5 / 2, 1 / 5, 1 / 2] 0 [1 / 2, 6 / 5, 3]
   \<and> is_ridge_solution [[10, 1, 0], [1, 0, 0]] [5 / 2, 1 / 5, 1 / 2] 0 [1 / 5, 1 / 2]
   \<and> is_ridge_solution [[1, 0, 0]] [5 / 2, 1 / 5, 1 / 2] 0 [5 / 2]"
  by (simp add: demo_solve_evals demo_normal_equations demo_first_solve demo_refits nnz_def)

end
